theory Spec2Isabelle
  imports Complex_Main "HOL-Library.AList"
begin

section \<open>Graph model\<close>

text \<open>
  The node and edge records of the graph store. Only the fields read by the clustering
  reducer, the visibility filter, the renderer and the selection actions are kept;
  the property bag, the colour and the position play no part in them.
\<close>

record NodeData =
  node_id :: string
  node_label :: string
  node_type :: string

record EdgeData =
  edge_id :: string
  edge_source :: string
  edge_target :: string
  edge_type :: string

text \<open>
  \<open>D3NodeData\<close> of \<open>GraphCanvasOptimized.tsx\<close>: a node as the canvas handles it. The
  optional fields \<open>isClusterNode\<close>, \<open>childNodes\<close> and \<open>size\<close> are absent on a node of
  the store (\<open>False\<close>, \<open>None\<close>) and set on a synthetic cluster node.
\<close>

record D3NodeData =
  d_id :: string
  d_label :: string
  d_type :: string
  d_size :: "rat option"
  isClusterNode :: bool
  childNodes :: "string list option"

definition toD3 :: "NodeData \<Rightarrow> D3NodeData" where
  "toD3 n = \<lparr>d_id = node_id n, d_label = node_label n, d_type = node_type n,
             d_size = None, isClusterNode = False, childNodes = None\<rparr>"

record GraphData =
  nodes :: "NodeData list"
  edges :: "EdgeData list"

record ClusteredData =
  c_nodes :: "D3NodeData list"
  c_edges :: "EdgeData list"

datatype js_error = TypeError

section \<open>Selection actions of the store (graphStore.ts)\<close>

datatype selection_mode = Single | Multiple

record SelectionState =
  selectedNodeIds :: "string set"
  selectedEdgeIds :: "string set"
  selectionMode :: selection_mode
  lastSelected :: "string option"

definition initialSelection :: SelectionState where
  "initialSelection = \<lparr>selectedNodeIds = {}, selectedEdgeIds = {},
                        selectionMode = Single, lastSelected = None\<rparr>"

definition selectNode :: "string \<Rightarrow> bool \<Rightarrow> SelectionState \<Rightarrow> SelectionState" where
  "selectNode nodeId multi s =
     (let s1 = (if \<not> multi then s\<lparr>selectedNodeIds := {}, selectedEdgeIds := {}\<rparr> else s)
      in s1\<lparr>selectedNodeIds := insert nodeId (selectedNodeIds s1),
             lastSelected := Some nodeId\<rparr>)"

definition selectEdge :: "string \<Rightarrow> bool \<Rightarrow> SelectionState \<Rightarrow> SelectionState" where
  "selectEdge edgeId multi s =
     (let s1 = (if \<not> multi then s\<lparr>selectedNodeIds := {}, selectedEdgeIds := {}\<rparr> else s)
      in s1\<lparr>selectedEdgeIds := insert edgeId (selectedEdgeIds s1),
             lastSelected := Some edgeId\<rparr>)"

definition clearSelection :: "SelectionState \<Rightarrow> SelectionState" where
  "clearSelection s = s\<lparr>selectedNodeIds := {}, selectedEdgeIds := {}, lastSelected := None\<rparr>"

section \<open>String helpers\<close>

text \<open>Decimal printing of a length, as a template literal does.\<close>

definition digitChar :: "nat \<Rightarrow> char" where
  "digitChar d = char_of (48 + d)"

fun numberToString :: "nat \<Rightarrow> string" where
  "numberToString n =
     (if 10 \<le> n then numberToString (n div 10) @ [digitChar (n mod 10)]
      else [digitChar n])"

declare numberToString.simps [simp del]

text \<open>
  \<open>String.prototype.toLowerCase\<close> on the ASCII letters; other characters are left as
  they are. \<open>String.prototype.includes\<close> is the contiguous-substring test, true for the
  empty needle.
\<close>

definition lowerChar :: "char \<Rightarrow> char" where
  "lowerChar c =
     (let k = (of_char c :: nat) in if 65 \<le> k \<and> k \<le> 90 then char_of (k + 32) else c)"

definition toLowerCase :: "string \<Rightarrow> string" where
  "toLowerCase s = map lowerChar s"

fun includes_s :: "string \<Rightarrow> string \<Rightarrow> bool" where
  "includes_s [] q = (q = [])"
| "includes_s (c # cs) q = (take (length q) (c # cs) = q \<or> includes_s cs q)"

section \<open>Importance scorer (nodeImportance)\<close>

text \<open>
  A JavaScript \<open>Map\<close> is an association list in insertion order; \<open>Map.set\<close> is
  \<open>AList.update\<close> (an existing key keeps its place and takes the new value, a new key
  goes to the end) and \<open>Map.get\<close> is \<open>map_of\<close>.
\<close>

definition degree :: "EdgeData list \<Rightarrow> string \<Rightarrow> nat" where
  "degree es i = length (filter (\<lambda>edge. edge_source edge = i \<or> edge_target edge = i) es)"

definition nodeImportance :: "GraphData \<Rightarrow> (string \<times> nat) list" where
  "nodeImportance dat =
     fold (\<lambda>node importance.
             AList.update (node_id node) (degree (edges dat) (node_id node)) importance)
          (nodes dat) []"

text \<open>\<open>nodeImportance.get(id) || 0\<close>\<close>

definition importanceOf :: "(string \<times> nat) list \<Rightarrow> string \<Rightarrow> nat" where
  "importanceOf importance i = (case map_of importance i of None \<Rightarrow> 0 | Some d \<Rightarrow> d)"

section \<open>Clustering reducer (clusteredData)\<close>

definition clusterKey :: "string \<Rightarrow> string" where
  "clusterKey t = ''cluster_'' @ t"

text \<open>
  The body of the grouping loop: create the group of the node's type when the map has
  no such key, then push the node on it.
\<close>

definition addToCluster ::
  "NodeData \<Rightarrow> (string \<times> NodeData list) list \<Rightarrow> (string \<times> NodeData list) list" where
  "addToCluster node clusters =
     (let key = clusterKey (node_type node);
          clusters1 = (if map_of clusters key = None then AList.update key [] clusters
                       else clusters)
      in AList.map_entry key (\<lambda>g. g @ [node]) clusters1)"

definition groupNodes :: "string set \<Rightarrow> NodeData list \<Rightarrow> (string \<times> NodeData list) list" where
  "groupNodes nodeTypes ns =
     fold (\<lambda>node clusters.
             if node_type node \<in> nodeTypes then addToCluster node clusters else clusters)
          ns []"

text \<open>
  The synthetic cluster node of a group. Its label reads \<open>nodes[0].type\<close>, which throws
  a \<open>TypeError\<close> on an empty group; \<open>clusterRecord\<close> is the object literal, given that
  type.
\<close>

definition clusterRecord :: "string \<Rightarrow> string \<Rightarrow> NodeData list \<Rightarrow> D3NodeData" where
  "clusterRecord clusterId t ns =
     \<lparr>d_id = clusterId,
      d_label = t @ '' cluster ('' @ numberToString (length ns) @ '')'',
      d_type = ''cluster'',
      d_size = Some (min (35 + of_nat (length ns) / 2) 60),
      isClusterNode = True,
      childNodes = Some (map node_id ns)\<rparr>"

definition clusterNode :: "string \<Rightarrow> NodeData list \<Rightarrow> js_error + D3NodeData" where
  "clusterNode clusterId ns =
     (case ns of
        [] \<Rightarrow> Inl TypeError
      | n0 # _ \<Rightarrow> Inr (clusterRecord clusterId (node_type n0) ns))"

text \<open>
  The loop over the groups, with its two output arrays as accumulators: a group larger
  than the threshold whose id is not expanded becomes a cluster node, every other
  group's nodes are pushed on \<open>remainingNodes\<close>.
\<close>

fun createClusterNodes ::
  "int \<Rightarrow> string set \<Rightarrow> (string \<times> NodeData list) list \<Rightarrow> D3NodeData list \<Rightarrow> D3NodeData list
     \<Rightarrow> js_error + (D3NodeData list \<times> D3NodeData list)" where
  "createClusterNodes clusterThreshold expandedClusters [] clusterNodes remainingNodes =
     Inr (clusterNodes, remainingNodes)"
| "createClusterNodes clusterThreshold expandedClusters ((clusterId, ns) # rest)
       clusterNodes remainingNodes =
     (if int (length ns) > clusterThreshold \<and> clusterId \<notin> expandedClusters
      then (case clusterNode clusterId ns of
              Inl e \<Rightarrow> Inl e
            | Inr c \<Rightarrow> createClusterNodes clusterThreshold expandedClusters rest
                        (clusterNodes @ [c]) remainingNodes)
      else createClusterNodes clusterThreshold expandedClusters rest
             clusterNodes (remainingNodes @ map toD3 ns))"

text \<open>The second loop over the nodes (``Add non-clustered nodes'').\<close>

definition nonClustered :: "string set \<Rightarrow> string set \<Rightarrow> NodeData list \<Rightarrow> D3NodeData list" where
  "nonClustered nodeTypes expandedClusters ns =
     map toD3 (filter (\<lambda>node. node_type node \<notin> nodeTypes
                              \<or> clusterKey (node_type node) \<in> expandedClusters) ns)"

text \<open>
  Edge rewriting: the cluster nodes are visited in order, and an endpoint found among a
  cluster's \<open>childNodes\<close> is replaced by the cluster's id.
\<close>

definition retarget :: "D3NodeData \<Rightarrow> string \<Rightarrow> string" where
  "retarget cluster x =
     (if (case childNodes cluster of None \<Rightarrow> False | Some ch \<Rightarrow> x \<in> set ch)
      then d_id cluster else x)"

definition updateEdge :: "D3NodeData list \<Rightarrow> EdgeData \<Rightarrow> EdgeData" where
  "updateEdge clusterNodes edge =
     (let (source, target) =
            fold (\<lambda>cluster (source, target). (retarget cluster source, retarget cluster target))
                 clusterNodes (edge_source edge, edge_target edge)
      in edge\<lparr>edge_source := source, edge_target := target\<rparr>)"

definition edgeKey :: "EdgeData \<Rightarrow> string" where
  "edgeKey e = edge_source e @ ''-'' @ edge_target e"

text \<open>\<open>Array.from(new Map(updatedEdges.map(e => [key, e])).values())\<close>\<close>

definition uniqueEdges :: "EdgeData list \<Rightarrow> EdgeData list" where
  "uniqueEdges es = map snd (fold (\<lambda>e m. AList.update (edgeKey e) e m) es [])"

definition clusteredData ::
  "bool \<Rightarrow> int \<Rightarrow> string set \<Rightarrow> string set \<Rightarrow> GraphData \<Rightarrow> js_error + ClusteredData" where
  "clusteredData enableClustering clusterThreshold nodeTypes expandedClusters dat =
     (if \<not> enableClustering \<or> int (length (nodes dat)) < clusterThreshold
      then Inr \<lparr>c_nodes = map toD3 (nodes dat), c_edges = edges dat\<rparr>
      else
        (case createClusterNodes clusterThreshold expandedClusters
                (groupNodes nodeTypes (nodes dat)) [] [] of
           Inl e \<Rightarrow> Inl e
         | Inr (clusterNodes, remainingNodes1) \<Rightarrow>
             (let remainingNodes =
                    remainingNodes1 @ nonClustered nodeTypes expandedClusters (nodes dat);
                  updatedEdges = map (updateEdge clusterNodes) (edges dat)
              in Inr \<lparr>c_nodes = remainingNodes @ clusterNodes,
                      c_edges = uniqueEdges updatedEdges\<rparr>)))"

definition handleClusterClick :: "string \<Rightarrow> string set \<Rightarrow> string set" where
  "handleClusterClick clusterId prev =
     (if clusterId \<in> prev then prev - {clusterId} else insert clusterId prev)"

section \<open>Visibility filter (visibleData)\<close>

datatype visibility_mode = ModeAll | ModeImportant | ModeFiltered

text \<open>Step 1: the search filter, skipped for the empty (falsy) query.\<close>

definition searchFilter :: "string \<Rightarrow> ClusteredData \<Rightarrow> ClusteredData" where
  "searchFilter searchQuery v =
     (if searchQuery \<noteq> [] then
        (let matchingNodeIds =
               set (map d_id (filter (\<lambda>node. includes_s (toLowerCase (d_label node))
                                                        (toLowerCase searchQuery))
                                     (c_nodes v)))
         in \<lparr>c_nodes = filter (\<lambda>node. d_id node \<in> matchingNodeIds) (c_nodes v),
              c_edges = filter (\<lambda>edge. edge_source edge \<in> matchingNodeIds
                                       \<and> edge_target edge \<in> matchingNodeIds) (c_edges v)\<rparr>)
      else v)"

text \<open>Step 2: the type filters.\<close>

definition typeFilter :: "string set \<Rightarrow> string set \<Rightarrow> ClusteredData \<Rightarrow> ClusteredData" where
  "typeFilter nodeTypes edgeTypes v =
     \<lparr>c_nodes = filter (\<lambda>node. d_type node \<in> nodeTypes \<or> isClusterNode node) (c_nodes v),
      c_edges = filter (\<lambda>edge. edge_type edge \<in> edgeTypes) (c_edges v)\<rparr>"

text \<open>
  \<open>Array.prototype.slice(0, m)\<close>: a negative end counts from the end of the array.
  \<open>Array.prototype.sort\<close> is stable, and so is \<open>sort_key\<close>; the comparator
  \<open>importance(b) - importance(a)\<close> sorts by descending importance.
\<close>

definition slice0 :: "'a list \<Rightarrow> int \<Rightarrow> 'a list" where
  "slice0 xs m = (if m < 0 then take (nat (int (length xs) + m)) xs else take (nat m) xs)"

text \<open>Step 3: the importance cap.\<close>

definition importanceFilter ::
  "visibility_mode \<Rightarrow> int \<Rightarrow> (string \<times> nat) list \<Rightarrow> ClusteredData \<Rightarrow> ClusteredData" where
  "importanceFilter visibilityMode maxVisibleNodes importance v =
     (if visibilityMode = ModeImportant \<and> int (length (c_nodes v)) > maxVisibleNodes then
        (let sortedNodes =
               sort_key (\<lambda>node. - int (importanceOf importance (d_id node))) (c_nodes v);
             topNodes = set (map d_id (slice0 sortedNodes maxVisibleNodes))
         in \<lparr>c_nodes = filter (\<lambda>node. d_id node \<in> topNodes) (c_nodes v),
              c_edges = filter (\<lambda>edge. edge_source edge \<in> topNodes
                                       \<and> edge_target edge \<in> topNodes) (c_edges v)\<rparr>)
      else v)"

text \<open>
  Step 4: the cull at low zoom. \<open>Math.max\<close> of no values is \<open>-Infinity\<close>, which every
  node passes. The degrees are integers, so the floating-point test
  \<open>degree >= max * 0.3\<close> is the exact test \<open>3 * max \<le> 10 * degree\<close>.
\<close>

definition aboveMinImportance :: "(string \<times> nat) list \<Rightarrow> string \<Rightarrow> bool" where
  "aboveMinImportance importance i =
     (importance = []
      \<or> 3 * Max (set (map snd importance)) \<le> 10 * importanceOf importance i)"

definition lodFilter :: "rat \<Rightarrow> (string \<times> nat) list \<Rightarrow> ClusteredData \<Rightarrow> ClusteredData" where
  "lodFilter zoomLevel importance v =
     (if zoomLevel < 1 / 2 then
        v\<lparr>c_nodes := filter (\<lambda>node. aboveMinImportance importance (d_id node)
                                    \<or> isClusterNode node) (c_nodes v)\<rparr>
      else v)"

definition visibleData ::
  "ClusteredData \<Rightarrow> string \<Rightarrow> string set \<Rightarrow> string set \<Rightarrow> visibility_mode \<Rightarrow> int
     \<Rightarrow> (string \<times> nat) list \<Rightarrow> rat \<Rightarrow> ClusteredData" where
  "visibleData clustered searchQuery nodeTypes edgeTypes visibilityMode maxVisibleNodes
       importance zoomLevel =
     lodFilter zoomLevel importance
       (importanceFilter visibilityMode maxVisibleNodes importance
          (typeFilter nodeTypes edgeTypes
             (searchFilter searchQuery clustered)))"

text \<open>
  The two memoised stages in sequence, as the component evaluates them before it hands
  \<open>visibleData\<close> to the simulation. The settings of the component and of the store are
  gathered in one record.
\<close>

record Settings =
  enableClustering :: bool
  clusterThreshold :: int
  maxVisibleNodes :: int
  nodeTypes :: "string set"
  edgeTypes :: "string set"
  searchQuery :: string
  expandedClusters :: "string set"
  visibilityMode :: visibility_mode
  zoomLevel :: rat

definition clusterStage :: "Settings \<Rightarrow> GraphData \<Rightarrow> js_error + ClusteredData" where
  "clusterStage st dat =
     clusteredData (enableClustering st) (clusterThreshold st) (nodeTypes st)
       (expandedClusters st) dat"

definition simulated :: "Settings \<Rightarrow> GraphData \<Rightarrow> js_error + ClusteredData" where
  "simulated st dat =
     (case clusterStage st dat of
        Inl e \<Rightarrow> Inl e
      | Inr clustered \<Rightarrow>
          Inr (visibleData clustered (searchQuery st) (nodeTypes st) (edgeTypes st)
                 (visibilityMode st) (maxVisibleNodes st) (nodeImportance dat)
                 (zoomLevel st)))"

text \<open>The defaults of the component and the initial filter of the store.\<close>

definition defaultSettings :: Settings where
  "defaultSettings =
     \<lparr>enableClustering = True, clusterThreshold = 10, maxVisibleNodes = 100,
      nodeTypes = set [''condition'', ''exercise'', ''equipment'', ''metric''],
      edgeTypes = set [''treats'', ''requires'', ''measures'', ''related_to''],
      searchQuery = [], expandedClusters = {}, visibilityMode = ModeImportant,
      zoomLevel = 1\<rparr>"

section \<open>The link filter of D3ForceGraph (initializeGraph)\<close>

definition validLinks :: "GraphData \<Rightarrow> EdgeData list" where
  "validLinks dat =
     (let nodeIds = set (map node_id (nodes dat))
      in filter (\<lambda>edge. edge_source edge \<in> nodeIds \<and> edge_target edge \<in> nodeIds) (edges dat))"

section \<open>Level of detail (renderNodes)\<close>

text \<open>
  Zoom factors are modelled as rationals and the literal \<open>0.7\<close> as \<open>7/10\<close>; the
  comparison itself is exact in floating point.
\<close>

datatype detail = FullDetail | Simplified

definition detailTier :: "rat \<Rightarrow> detail" where
  "detailTier zoom = (if zoom > 7 / 10 then FullDetail else Simplified)"

text \<open>\<open>nodeTypeConfig\<close>: colour and size by node type.\<close>

definition nodeTypeConfig :: "string \<Rightarrow> (string \<times> rat) option" where
  "nodeTypeConfig t =
     (if t = ''condition'' then Some (''#ff6b6b'', 25)
      else if t = ''exercise'' then Some (''#4ecdc4'', 22)
      else if t = ''equipment'' then Some (''#45b7d1'', 20)
      else if t = ''metric'' then Some (''#f39c12'', 18)
      else if t = ''cluster'' then Some (''#9f7aea'', 35)
      else None)"

datatype svg_element = Circle rat string | Label string

definition fillOf :: "D3NodeData \<Rightarrow> string" where
  "fillOf d =
     (if isClusterNode d then ''#9f7aea''
      else (case nodeTypeConfig (d_type d) of None \<Rightarrow> ''#gray'' | Some (c, _) \<Rightarrow> c))"

definition fullRadius :: "D3NodeData \<Rightarrow> rat" where
  "fullRadius d =
     (if isClusterNode d
      then (case d_size d of None \<Rightarrow> 35 | Some s \<Rightarrow> if s = 0 then 35 else s)
      else (case nodeTypeConfig (d_type d) of None \<Rightarrow> 20 | Some (_, s) \<Rightarrow> s))"

definition labelText :: "D3NodeData \<Rightarrow> string" where
  "labelText d =
     (if isClusterNode d
      then (case childNodes d of None \<Rightarrow> [] | Some ch \<Rightarrow> numberToString (length ch) @ '' nodes'')
      else (if length (d_label d) > 12 then take 12 (d_label d) @ ''...'' else d_label d))"

text \<open>The elements appended to the group of an entering node.\<close>

definition renderNode :: "rat \<Rightarrow> D3NodeData \<Rightarrow> svg_element list" where
  "renderNode zoom d =
     (case detailTier zoom of
        FullDetail \<Rightarrow> [Circle (fullRadius d) (fillOf d), Label (labelText d)]
      | Simplified \<Rightarrow> [Circle (if isClusterNode d then 8 else 4) (fillOf d)])"

section \<open>Example graphs\<close>

text \<open>
  The three-node graph \<open>A:condition\<close>, \<open>B:exercise\<close>, \<open>C:equipment\<close> with the edges
  \<open>A \<rightarrow> B\<close> (treats) and \<open>B \<rightarrow> C\<close> (requires).
\<close>

definition nodeA :: NodeData where
  "nodeA = \<lparr>node_id = ''A'', node_label = ''A'', node_type = ''condition''\<rparr>"

definition nodeB :: NodeData where
  "nodeB = \<lparr>node_id = ''B'', node_label = ''B'', node_type = ''exercise''\<rparr>"

definition nodeC :: NodeData where
  "nodeC = \<lparr>node_id = ''C'', node_label = ''C'', node_type = ''equipment''\<rparr>"

definition edgeAB :: EdgeData where
  "edgeAB = \<lparr>edge_id = ''e1'', edge_source = ''A'', edge_target = ''B'', edge_type = ''treats''\<rparr>"

definition edgeBC :: EdgeData where
  "edgeBC = \<lparr>edge_id = ''e2'', edge_source = ''B'', edge_target = ''C'', edge_type = ''requires''\<rparr>"

definition scenarioGraph :: GraphData where
  "scenarioGraph = \<lparr>nodes = [nodeA, nodeB, nodeC], edges = [edgeAB, edgeBC]\<rparr>"

text \<open>A graph of \<open>n\<close> exercise nodes \<open>ex1\<close>, \<open>ex2\<close>, ... and no edges.\<close>

definition exerciseNode :: "nat \<Rightarrow> NodeData" where
  "exerciseNode i =
     \<lparr>node_id = ''ex'' @ numberToString i, node_label = ''Exercise '' @ numberToString i,
      node_type = ''exercise''\<rparr>"

definition exercises :: "nat \<Rightarrow> GraphData" where
  "exercises n = \<lparr>nodes = map exerciseNode [1..<Suc n], edges = []\<rparr>"

text \<open>The reducer's output on the three-node graph, which it passes through.\<close>

definition scenarioClustered :: ClusteredData where
  "scenarioClustered =
     \<lparr>c_nodes = map toD3 (nodes scenarioGraph), c_edges = edges scenarioGraph\<rparr>"

text \<open>Eleven exercise nodes with one edge between two of them.\<close>

definition edgeEx12 :: EdgeData where
  "edgeEx12 = \<lparr>edge_id = ''r1'', edge_source = ''ex1'', edge_target = ''ex2'',
               edge_type = ''related_to''\<rparr>"

definition linkedExercises :: GraphData where
  "linkedExercises = \<lparr>nodes = nodes (exercises 11), edges = [edgeEx12]\<rparr>"








section \<open>Properties of the clustering reducer\<close>

lemma clusterKey_inj: "clusterKey a = clusterKey b \<longleftrightarrow> a = b"
  by (simp add: clusterKey_def)

lemma addToCluster_map_of:
  "map_of (addToCluster n cl) k =
     (if k = clusterKey (node_type n)
      then Some ((case map_of cl k of None \<Rightarrow> [] | Some g \<Rightarrow> g) @ [n])
      else map_of cl k)"
  by (auto simp: addToCluster_def Let_def AList.map_of_map_entry AList.update_conv'
           split: option.splits)

lemma addToCluster_distinct:
  "distinct (map fst cl) \<Longrightarrow> distinct (map fst (addToCluster n cl))"
  by (simp add: addToCluster_def Let_def AList.distinct_map_entry AList.distinct_update)

lemma fold_groups_distinct:
  "distinct (map fst cl) \<Longrightarrow>
   distinct (map fst (fold (\<lambda>node clusters.
       if node_type node \<in> nt then addToCluster node clusters else clusters) ns cl))"
  by (induction ns arbitrary: cl) (auto simp: addToCluster_distinct)

lemma fold_groups_map_of:
  "map_of (fold (\<lambda>node clusters.
       if node_type node \<in> nt then addToCluster node clusters else clusters) ns cl) k =
   (let new = filter (\<lambda>n. node_type n \<in> nt \<and> clusterKey (node_type n) = k) ns
    in case map_of cl k of
         None \<Rightarrow> if new = [] then None else Some new
       | Some g \<Rightarrow> Some (g @ new))"
proof (induction ns arbitrary: cl)
  case Nil
  then show ?case by (simp split: option.splits)
next
  case (Cons n ns)
  show ?case
    by (simp add: Cons.IH addToCluster_map_of Let_def split: option.splits)
qed

lemma groupNodes_distinct: "distinct (map fst (groupNodes nt ns))"
  by (simp add: groupNodes_def fold_groups_distinct)

lemma groupNodes_map_of:
  "map_of (groupNodes nt ns) k =
     (let new = filter (\<lambda>n. node_type n \<in> nt \<and> clusterKey (node_type n) = k) ns
      in if new = [] then None else Some new)"
  by (simp add: groupNodes_def fold_groups_map_of)

lemma groupNodes_mem:
  "(k, g) \<in> set (groupNodes nt ns) \<longleftrightarrow>
     g \<noteq> [] \<and> g = filter (\<lambda>n. node_type n \<in> nt \<and> clusterKey (node_type n) = k) ns"
proof -
  have "(k, g) \<in> set (groupNodes nt ns) \<longleftrightarrow> map_of (groupNodes nt ns) k = Some g"
    using groupNodes_distinct [of nt ns] by simp
  then show ?thesis
    by (auto simp: groupNodes_map_of Let_def)
qed

lemma createClusterNodes_Inr:
  "\<forall>(k, g) \<in> set cl. g \<noteq> [] \<Longrightarrow>
   createClusterNodes th ex cl cn rem =
     Inr (cn @ map (\<lambda>(k, g). clusterRecord k (node_type (hd g)) g)
                   (filter (\<lambda>(k, g). int (length g) > th \<and> k \<notin> ex) cl),
          rem @ concat (map (\<lambda>(k, g). map toD3 g)
                   (filter (\<lambda>(k, g). \<not> (int (length g) > th \<and> k \<notin> ex)) cl)))"
proof (induction cl arbitrary: cn rem)
  case Nil
  then show ?case by simp
next
  case (Cons p cl)
  obtain k g where p: "p = (k, g)" by (cases p)
  from Cons.prems p have g: "g \<noteq> []" and rest: "\<forall>(k, g) \<in> set cl. g \<noteq> []" by auto
  from g obtain n0 g' where gc: "g = n0 # g'" by (cases g) auto
  show ?case
    using Cons.IH [OF rest] by (simp add: p clusterNode_def gc)
qed

lemma groupNodes_nonempty: "\<forall>(k, g) \<in> set (groupNodes nt ns). g \<noteq> []"
  by (auto simp: groupNodes_mem)

lemma clusteredData_passthrough:
  "\<not> en \<or> int (length (nodes dat)) < th \<Longrightarrow>
   clusteredData en th nt ex dat = Inr \<lparr>c_nodes = map toD3 (nodes dat), c_edges = edges dat\<rparr>"
  by (simp add: clusteredData_def)

lemma clusteredData_clustering:
  assumes "en" and "th \<le> int (length (nodes dat))"
  shows "clusteredData en th nt ex dat =
    Inr \<lparr>c_nodes =
           (concat (map (\<lambda>(k, g). map toD3 g)
              (filter (\<lambda>(k, g). \<not> (int (length g) > th \<and> k \<notin> ex)) (groupNodes nt (nodes dat))))
            @ nonClustered nt ex (nodes dat))
           @ map (\<lambda>(k, g). clusterRecord k (node_type (hd g)) g)
               (filter (\<lambda>(k, g). int (length g) > th \<and> k \<notin> ex) (groupNodes nt (nodes dat))),
          c_edges = uniqueEdges (map (updateEdge
            (map (\<lambda>(k, g). clusterRecord k (node_type (hd g)) g)
               (filter (\<lambda>(k, g). int (length g) > th \<and> k \<notin> ex) (groupNodes nt (nodes dat)))))
            (edges dat))\<rparr>"
  using assms
  by (simp add: clusteredData_def createClusterNodes_Inr [OF groupNodes_nonempty] Let_def)

lemma clusteredData_total: "\<exists>r. clusteredData en th nt ex dat = Inr r"
proof (cases "\<not> en \<or> int (length (nodes dat)) < th")
  case True
  then show ?thesis by (simp add: clusteredData_passthrough)
next
  case False
  then show ?thesis using clusteredData_clustering [of en th dat nt ex] by simp
qed

lemma concat_single:
  "distinct (map fst al) \<Longrightarrow> (\<forall>(k, g) \<in> set al. k \<noteq> k0 \<longrightarrow> f k g = []) \<Longrightarrow>
   concat (map (\<lambda>(k, g). f k g) al) = (case map_of al k0 of None \<Rightarrow> [] | Some g \<Rightarrow> f k0 g)"
proof (induction al)
  case Nil
  then show ?case by simp
next
  case (Cons p al)
  obtain k g where p: "p = (k, g)" by (cases p)
  show ?case
  proof (cases "k = k0")
    case True
    with Cons.prems p have "k0 \<notin> fst ` set al" by auto
    then have none: "map_of al k0 = None" by (simp add: map_of_eq_None_iff)
    have "\<forall>(k, g) \<in> set al. k \<noteq> k0 \<longrightarrow> f k g = []" using Cons.prems by auto
    with Cons.IH Cons.prems have "concat (map (\<lambda>(k, g). f k g) al) = []"
      by (simp add: none)
    then show ?thesis by (simp add: p True)
  next
    case False
    with Cons.prems p have "f k g = []" by auto
    moreover have "concat (map (\<lambda>(k, g). f k g) al) =
        (case map_of al k0 of None \<Rightarrow> [] | Some g \<Rightarrow> f k0 g)"
      using Cons.IH Cons.prems by auto
    ultimately show ?thesis using False by (simp add: p)
  qed
qed

lemma filter_concat_filter:
  "filter P (concat (map F (filter Q xs))) =
   concat (map (\<lambda>x. if Q x then filter P (F x) else []) xs)"
  by (induction xs) auto


lemma toD3_simps [simp]:
  "isClusterNode (toD3 n) = False" "d_type (toD3 n) = node_type n" "d_id (toD3 n) = node_id n"
  "d_label (toD3 n) = node_label n"
  by (simp_all add: toD3_def)

lemma clusterRecord_simps [simp]:
  "isClusterNode (clusterRecord k t g) = True" "d_id (clusterRecord k t g) = k"
  "childNodes (clusterRecord k t g) = Some (map node_id g)"
  "d_type (clusterRecord k t g) = ''cluster''"
  by (simp_all add: clusterRecord_def)

lemma group_of_type:
  assumes "t \<in> nt"
  shows "map_of (groupNodes nt ns) (clusterKey t) =
     (if filter (\<lambda>n. node_type n = t) ns = [] then None
      else Some (filter (\<lambda>n. node_type n = t) ns))"
proof -
  have "filter (\<lambda>n. node_type n \<in> nt \<and> clusterKey (node_type n) = clusterKey t) ns =
        filter (\<lambda>n. node_type n = t) ns"
    using assms by (intro filter_cong) (auto simp: clusterKey_inj)
  then show ?thesis by (simp add: groupNodes_map_of Let_def)
qed


lemma plain_nodes_of_type:
  assumes "t \<in> nt" and "G = filter (\<lambda>n. node_type n = t) ns" and "G \<noteq> []"
  shows "filter (\<lambda>d. \<not> isClusterNode d \<and> d_type d = t)
           (concat (map (\<lambda>(k, g). map toD3 g)
              (filter (\<lambda>(k, g). \<not> (int (length g) > th \<and> k \<notin> ex)) (groupNodes nt ns)))) =
         (if int (length G) > th \<and> clusterKey t \<notin> ex then [] else map toD3 G)"
proof -
  let ?f = "\<lambda>k g. if \<not> (int (length g) > th \<and> k \<notin> ex)
                   then map toD3 (filter (\<lambda>n. node_type n = t) g) else []"
  have "filter (\<lambda>d. \<not> isClusterNode d \<and> d_type d = t)
           (concat (map (\<lambda>(k, g). map toD3 g)
              (filter (\<lambda>(k, g). \<not> (int (length g) > th \<and> k \<notin> ex)) (groupNodes nt ns)))) =
        concat (map (\<lambda>(k, g). ?f k g) (groupNodes nt ns))"
    unfolding filter_concat_filter
    by (rule arg_cong [where f = concat], rule map_cong)
       (auto split: prod.splits simp: filter_map o_def)
  also have "\<dots> = (case map_of (groupNodes nt ns) (clusterKey t) of
                      None \<Rightarrow> [] | Some g \<Rightarrow> ?f (clusterKey t) g)"
  proof (rule concat_single [OF groupNodes_distinct], clarify)
    fix k g assume "(k, g) \<in> set (groupNodes nt ns)" and ne: "k \<noteq> clusterKey t"
    then have "g = filter (\<lambda>n. node_type n \<in> nt \<and> clusterKey (node_type n) = k) ns"
      by (simp add: groupNodes_mem)
    then have "filter (\<lambda>n. node_type n = t) g = []"
      using ne by (auto simp: filter_empty_conv)
    then show "?f k g = []" by simp
  qed
  also have "\<dots> = (if int (length G) > th \<and> clusterKey t \<notin> ex then [] else map toD3 G)"
    using assms by (simp add: group_of_type)
  finally show ?thesis .
qed



text \<open>
  Claim C2, on the code. On the clustering path, when the cluster id of an active node
  type is expanded, the reducer returns every node of that type twice: once from the
  loop over the groups, whose else-branch takes the expanded group, and once from the
  loop that adds the nodes of expanded clusters. So the node ids of the output are not
  distinct.
\<close>

theorem C2_expanded_group_is_duplicated:
  assumes "th \<le> int (length (nodes dat))"
    and "t \<in> nt" and "clusterKey t \<in> ex"
    and "G = filter (\<lambda>n. node_type n = t) (nodes dat)" and "G \<noteq> []"
  shows "\<exists>r. clusteredData True th nt ex dat = Inr r
     \<and> filter (\<lambda>d. \<not> isClusterNode d \<and> d_type d = t) (c_nodes r) = map toD3 G @ map toD3 G
     \<and> \<not> distinct (map d_id (c_nodes r))"
proof -
  define A where "A = concat (map (\<lambda>(k, g). map toD3 g)
        (filter (\<lambda>(k, g). \<not> (int (length g) > th \<and> k \<notin> ex)) (groupNodes nt (nodes dat))))"
  define B where "B = nonClustered nt ex (nodes dat)"
  define C where "C = map (\<lambda>(k, g). clusterRecord k (node_type (hd g)) g)
         (filter (\<lambda>(k, g). int (length g) > th \<and> k \<notin> ex) (groupNodes nt (nodes dat)))"
  define r where "r = \<lparr>c_nodes = (A @ B) @ C,
                        c_edges = uniqueEdges (map (updateEdge C) (edges dat))\<rparr>"
  have run: "clusteredData True th nt ex dat = Inr r"
    unfolding r_def A_def B_def C_def by (rule clusteredData_clustering [OF TrueI assms(1)])
  have a: "filter (\<lambda>d. \<not> isClusterNode d \<and> d_type d = t) A = map toD3 G"
    unfolding A_def using plain_nodes_of_type [OF assms(2,4,5), of th ex] assms(3) by simp
  have "filter (\<lambda>n. node_type n = t \<and> (node_type n \<notin> nt \<or> clusterKey (node_type n) \<in> ex))
          (nodes dat) = G"
    unfolding assms(4) using assms(3) by (intro filter_cong) auto
  then have b: "filter (\<lambda>d. \<not> isClusterNode d \<and> d_type d = t) B = map toD3 G"
    by (simp add: B_def nonClustered_def filter_map o_def conj_commute)
  have c: "filter (\<lambda>d. \<not> isClusterNode d \<and> d_type d = t) C = []"
    unfolding C_def by (auto simp: filter_empty_conv)
  have twice: "filter (\<lambda>d. \<not> isClusterNode d \<and> d_type d = t) (c_nodes r) =
                 map toD3 G @ map toD3 G"
    by (simp add: r_def a b c)
  obtain n where n: "n \<in> set G" using assms(5) by (cases G) auto
  have "\<not> distinct (filter (\<lambda>d. \<not> isClusterNode d \<and> d_type d = t) (c_nodes r))"
    unfolding twice using n by auto
  then have "\<not> distinct (c_nodes r)" using distinct_filter by blast
  then have "\<not> distinct (map d_id (c_nodes r))" by (auto simp: distinct_map)
  with run twice show ?thesis by blast
qed

text \<open>
  Eleven exercise nodes collapse into one cluster node. After a click on it the cluster
  id is expanded, and the reducer returns twenty-two nodes, every exercise node twice.
\<close>

theorem C2_eleven_exercises_witness:
  "(10::int) \<le> int (length (nodes (exercises 11)))
   \<and> ''exercise'' \<in> nodeTypes defaultSettings
   \<and> clusterKey ''exercise'' \<in> handleClusterClick ''cluster_exercise'' {}
   \<and> length (filter (\<lambda>n. node_type n = ''exercise'') (nodes (exercises 11))) = 11
   \<and> clusteredData True 10 (nodeTypes defaultSettings) {} (exercises 11) =
       Inr \<lparr>c_nodes = [clusterRecord ''cluster_exercise'' ''exercise'' (nodes (exercises 11))],
            c_edges = []\<rparr>
   \<and> clusteredData True 10 (nodeTypes defaultSettings)
       (handleClusterClick ''cluster_exercise'' {}) (exercises 11) =
       Inr \<lparr>c_nodes = map toD3 (nodes (exercises 11)) @ map toD3 (nodes (exercises 11)),
            c_edges = []\<rparr>
   \<and> (\<exists>r. clusteredData True 10 (nodeTypes defaultSettings)
          (handleClusterClick ''cluster_exercise'' {}) (exercises 11) = Inr r
        \<and> length (c_nodes r) = 22
        \<and> \<not> distinct (map d_id (c_nodes r)))"
proof -
  have h1: "(10::int) \<le> int (length (nodes (exercises 11)))" by code_simp
  have h2: "''exercise'' \<in> nodeTypes defaultSettings" by code_simp
  have h3: "clusterKey ''exercise'' \<in> handleClusterClick ''cluster_exercise'' {}" by code_simp
  have G: "nodes (exercises 11) = filter (\<lambda>n. node_type n = ''exercise'') (nodes (exercises 11))"
    by code_simp
  have len: "length (nodes (exercises 11)) = 11" by code_simp
  then have ne: "nodes (exercises 11) \<noteq> []" by auto
  have e1: "clusteredData True 10 (nodeTypes defaultSettings) {} (exercises 11) =
       Inr \<lparr>c_nodes = [clusterRecord ''cluster_exercise'' ''exercise'' (nodes (exercises 11))],
            c_edges = []\<rparr>"
    by code_simp
  have e2: "clusteredData True 10 (nodeTypes defaultSettings)
       (handleClusterClick ''cluster_exercise'' {}) (exercises 11) =
       Inr \<lparr>c_nodes = map toD3 (nodes (exercises 11)) @ map toD3 (nodes (exercises 11)),
            c_edges = []\<rparr>"
    by code_simp
  obtain r where r: "clusteredData True 10 (nodeTypes defaultSettings)
          (handleClusterClick ''cluster_exercise'' {}) (exercises 11) = Inr r"
      and d: "\<not> distinct (map d_id (c_nodes r))"
    using C2_expanded_group_is_duplicated [OF h1 h2 h3 G ne] by blast
  from r e2 have "length (c_nodes r) = 22" by (auto simp: len)
  with r d have ex: "\<exists>r. clusteredData True 10 (nodeTypes defaultSettings)
          (handleClusterClick ''cluster_exercise'' {}) (exercises 11) = Inr r
        \<and> length (c_nodes r) = 22
        \<and> \<not> distinct (map d_id (c_nodes r))"
    by blast
  have l11: "length (filter (\<lambda>n. node_type n = ''exercise'') (nodes (exercises 11))) = 11"
    using G len by simp
  from h1 h2 h3 l11 e1 e2 ex show ?thesis by blast
qed

section \<open>Properties of the importance cap\<close>







section \<open>Properties of the edge rewriting\<close>

lemma set_update_subset: "set (AList.update k v al) \<subseteq> insert (k, v) (set al)"
  by (induction al) auto

lemma fold_edge_map_keys:
  "fst ` set (fold (\<lambda>e m. AList.update (edgeKey e) e m) es m0) =
     fst ` set m0 \<union> edgeKey ` set es"
  by (induction es arbitrary: m0) (auto simp: AList.dom_update)


lemma fold_edge_map_entries:
  "(k, e) \<in> set (fold (\<lambda>e m. AList.update (edgeKey e) e m) es m0) \<Longrightarrow>
   (k, e) \<in> set m0 \<or> (e \<in> set es \<and> k = edgeKey e)"
proof (induction es arbitrary: m0)
  case Nil
  then show ?case by simp
next
  case (Cons a es)
  from Cons.IH [of "AList.update (edgeKey a) a m0"] Cons.prems
  have "(k, e) \<in> set (AList.update (edgeKey a) a m0) \<or> (e \<in> set es \<and> k = edgeKey e)"
    by simp
  then show ?case using set_update_subset [of "edgeKey a" a m0] by auto
qed


lemma uniqueEdges_keys:
  "map edgeKey (uniqueEdges es) = map fst (fold (\<lambda>e m. AList.update (edgeKey e) e m) es [])"
  using fold_edge_map_entries [of _ _ es "[]"] by (auto simp: uniqueEdges_def)


lemma uniqueEdges_key_set: "edgeKey ` set (uniqueEdges es) = edgeKey ` set es"
proof -
  have "edgeKey ` set (uniqueEdges es) = set (map edgeKey (uniqueEdges es))" by simp
  also have "\<dots> = edgeKey ` set es"
    unfolding uniqueEdges_keys using fold_edge_map_keys [of es "[]"] by simp
  finally show ?thesis .
qed


text \<open>The composite key determines the pair when the sources hold no separator.\<close>

lemma sep_split:
  "d \<notin> set s \<Longrightarrow> d \<notin> set s' \<Longrightarrow> s @ d # t = s' @ d # t' \<Longrightarrow> s = s' \<and> t = t'"
proof (induction s arbitrary: s')
  case Nil
  then show ?case by (cases s') auto
next
  case (Cons c s)
  then show ?case by (cases s') auto
qed

lemma sep_self:
  "d \<notin> set c \<Longrightarrow> c @ d # c = s' @ d # t' \<Longrightarrow> s' = c \<and> t' = c"
proof -
  assume d: "d \<notin> set c" and eq: "c @ d # c = s' @ d # t'"
  have "d \<notin> set s'"
  proof
    assume "d \<in> set s'"
    then obtain u w where s': "s' = u @ d # w" and u: "d \<notin> set u"
      by (meson split_list_first)
    from eq s' have "c @ d # c = u @ d # (w @ d # t')" by simp
    from sep_split [OF d u this] have "c = w @ d # t'" by blast
    with d show False by simp
  qed
  from sep_split [OF d this eq] show ?thesis by blast
qed

lemma edgeKey_self_loop:
  assumes "CHR ''-'' \<notin> set c" and "edgeKey e = c @ ''-'' @ c"
  shows "edge_source e = c \<and> edge_target e = c"
  using sep_self [OF assms(1), of "edge_source e" "edge_target e"] assms(2)
  by (simp add: edgeKey_def)

lemma clusterNodes_of_result:
  assumes "th \<le> int (length (nodes dat))" and "clusteredData True th nt ex dat = Inr r"
  shows "filter isClusterNode (c_nodes r) =
           map (\<lambda>(k, g). clusterRecord k (node_type (hd g)) g)
             (filter (\<lambda>(k, g). int (length g) > th \<and> k \<notin> ex) (groupNodes nt (nodes dat)))"
    and "c_edges r =
           uniqueEdges (map (updateEdge (filter isClusterNode (c_nodes r))) (edges dat))"
proof -
  define A where "A = concat (map (\<lambda>(k, g). map toD3 g)
        (filter (\<lambda>(k, g). \<not> (int (length g) > th \<and> k \<notin> ex)) (groupNodes nt (nodes dat))))"
  define C where "C = map (\<lambda>(k, g). clusterRecord k (node_type (hd g)) g)
         (filter (\<lambda>(k, g). int (length g) > th \<and> k \<notin> ex) (groupNodes nt (nodes dat)))"
  have r: "r = \<lparr>c_nodes = (A @ nonClustered nt ex (nodes dat)) @ C,
                c_edges = uniqueEdges (map (updateEdge C) (edges dat))\<rparr>"
    using clusteredData_clustering [OF TrueI assms(1), of nt ex] assms(2)
    unfolding A_def C_def by simp
  have a: "filter isClusterNode A = []"
    unfolding A_def by (auto simp: filter_empty_conv)
  have b: "filter isClusterNode (nonClustered nt ex (nodes dat)) = []"
    by (auto simp: nonClustered_def filter_empty_conv)
  have c: "filter isClusterNode C = C"
    unfolding C_def by (auto simp: filter_id_conv)
  have cn: "filter isClusterNode (c_nodes r) = C"
    by (simp add: r a b c)
  show "filter isClusterNode (c_nodes r) =
           map (\<lambda>(k, g). clusterRecord k (node_type (hd g)) g)
             (filter (\<lambda>(k, g). int (length g) > th \<and> k \<notin> ex) (groupNodes nt (nodes dat)))"
    using cn by (simp add: C_def)
  show "c_edges r =
           uniqueEdges (map (updateEdge (filter isClusterNode (c_nodes r))) (edges dat))"
    unfolding cn by (simp add: r)
qed

lemma fold_retarget_pair:
  "fold (\<lambda>cluster (source, target). (retarget cluster source, retarget cluster target)) cns (s, t) =
     (fold retarget cns s, fold retarget cns t)"
  by (induction cns arbitrary: s t) auto

lemma updateEdge_endpoints:
  "edge_source (updateEdge cns e) = fold retarget cns (edge_source e)"
  "edge_target (updateEdge cns e) = fold retarget cns (edge_target e)"
  by (simp_all add: updateEdge_def fold_retarget_pair)

lemma fold_retarget_fixed:
  "\<forall>c' \<in> set cns. \<forall>ch'. childNodes c' = Some ch' \<longrightarrow> v \<notin> set ch' \<Longrightarrow>
   fold retarget cns v = v"
  by (induction cns) (auto simp: retarget_def split: option.splits)

lemma fold_retarget_member:
  assumes "cl \<in> set cns" and "childNodes cl = Some ch" and "x \<in> set ch"
    and "\<forall>c' \<in> set cns. \<forall>ch'. childNodes c' = Some ch' \<longrightarrow>
           (x \<in> set ch' \<longrightarrow> d_id c' = d_id cl) \<and> d_id cl \<notin> set ch'"
  shows "fold retarget cns x = d_id cl"
  using assms(1,4)
proof (induction cns)
  case Nil
  then show ?case by simp
next
  case (Cons c' cs)
  have fixed: "fold retarget cs (d_id cl) = d_id cl"
    using Cons.prems(2) by (intro fold_retarget_fixed) auto
  show ?case
  proof (cases "case childNodes c' of None \<Rightarrow> False | Some ch' \<Rightarrow> x \<in> set ch'")
    case True
    then have "retarget c' x = d_id cl"
      using Cons.prems(2) by (auto simp: retarget_def split: option.splits)
    then show ?thesis using fixed by simp
  next
    case False
    then have r: "retarget c' x = x" by (simp add: retarget_def)
    from False assms(2,3) have "c' \<noteq> cl" by auto
    with Cons.prems(1) have "cl \<in> set cs" by simp
    from Cons.IH [OF this] Cons.prems(2) show ?thesis by (simp add: r)
  qed
qed

lemma members_rewritten_to_cluster:
  assumes path: "th \<le> int (length (nodes dat))"
    and run: "clusteredData True th nt ex dat = Inr r"
    and t: "t \<in> nt" "clusterKey t \<notin> ex"
    and big: "th < int (length (filter (\<lambda>n. node_type n = t) (nodes dat)))"
    and ids: "distinct (map node_id (nodes dat))"
    and fresh: "clusterKey t \<notin> node_id ` set (nodes dat)"
    and x: "x \<in> node_id ` set (filter (\<lambda>n. node_type n = t) (nodes dat))"
  shows "fold retarget (filter isClusterNode (c_nodes r)) x = clusterKey t"
proof -
  define G where "G = filter (\<lambda>n. node_type n = t) (nodes dat)"
  define cns where "cns = filter isClusterNode (c_nodes r)"
  have cns: "cns = map (\<lambda>(k, g). clusterRecord k (node_type (hd g)) g)
             (filter (\<lambda>(k, g). int (length g) > th \<and> k \<notin> ex) (groupNodes nt (nodes dat)))"
    unfolding cns_def by (rule clusterNodes_of_result(1) [OF path run])
  from x obtain n0 where "n0 \<in> set G" unfolding G_def by (elim imageE)
  then have Gne: "G \<noteq> []" by (cases G) simp_all
  have "map_of (groupNodes nt (nodes dat)) (clusterKey t) = Some G"
    using group_of_type [OF t(1), of "nodes dat"] Gne by (simp add: G_def)
  then have inG: "(clusterKey t, G) \<in> set (groupNodes nt (nodes dat))"
    by (rule map_of_SomeD)
  have "hd G \<in> set G" using Gne by simp
  then have hd: "node_type (hd G) = t" by (simp add: G_def)
  define cl where "cl = clusterRecord (clusterKey t) t G"
  have "(clusterKey t, G) \<in> set (filter (\<lambda>(k, g). int (length g) > th \<and> k \<notin> ex)
                                  (groupNodes nt (nodes dat)))"
    using inG big t(2) by (simp add: G_def)
  then have "(\<lambda>(k, g). clusterRecord k (node_type (hd g)) g) (clusterKey t, G) \<in> set cns"
    unfolding cns set_map by (rule imageI)
  then have clin: "cl \<in> set cns" by (simp add: cl_def hd)
  have ch: "childNodes cl = Some (map node_id G)" by (simp add: cl_def)
  have xin: "x \<in> set (map node_id G)" using x by (simp add: G_def)
  have other: "\<forall>c' \<in> set cns. \<forall>ch'. childNodes c' = Some ch' \<longrightarrow>
           (x \<in> set ch' \<longrightarrow> d_id c' = d_id cl) \<and> d_id cl \<notin> set ch'"
  proof (intro ballI allI impI)
    fix c' ch' assume c': "c' \<in> set cns" and ch': "childNodes c' = Some ch'"
    from c' obtain k g where kg: "(k, g) \<in> set (groupNodes nt (nodes dat))"
      and c'eq: "c' = clusterRecord k (node_type (hd g)) g"
      unfolding cns by auto
    from kg have g: "g = filter (\<lambda>n. node_type n \<in> nt \<and> clusterKey (node_type n) = k) (nodes dat)"
      by (simp add: groupNodes_mem)
    from ch' c'eq have ch'eq: "ch' = map node_id g" by simp
    have a: "d_id c' = d_id cl" if "x \<in> set ch'"
    proof -
      from that ch'eq obtain n' where n': "n' \<in> set g" "node_id n' = x" by auto
      from xin obtain n where n: "n \<in> set G" "node_id n = x" by auto
      from n' g have "n' \<in> set (nodes dat)" by simp
      moreover from n have "n \<in> set (nodes dat)" by (simp add: G_def)
      ultimately have "n' = n"
        using ids n'(2) n(2) by (auto simp: distinct_map dest: inj_onD)
      with n(1) have "node_type n' = t" by (simp add: G_def)
      with n'(1) g have "k = clusterKey t" by auto
      then show ?thesis by (simp add: c'eq cl_def)
    qed
    have b: "d_id cl \<notin> set ch'"
    proof
      assume "d_id cl \<in> set ch'"
      then have "clusterKey t \<in> node_id ` set g" by (simp add: ch'eq cl_def)
      then have "clusterKey t \<in> node_id ` set (nodes dat)" using g by auto
      with fresh show False by simp
    qed
    from a b show "(x \<in> set ch' \<longrightarrow> d_id c' = d_id cl) \<and> d_id cl \<notin> set ch'" by blast
  qed
  have "fold retarget cns x = d_id cl"
    by (rule fold_retarget_member [OF clin ch xin other])
  then show ?thesis by (simp add: cns_def cl_def)
qed

text \<open>
  Claim C3, as the code has it. The reducer has no step that removes an edge whose two
  endpoints were rewritten to the same node. On the clustering path, an edge whose two
  endpoints are both members of the same collapsed group has both endpoints rewritten
  to the id of the group's cluster node (given distinct node ids, none of them that
  cluster id). For every input edge whose rewritten source and target are the same
  id \<open>c\<close>, the output holds an edge with the composite key of that pair; when \<open>c\<close>
  holds no dash, the output holds an edge whose source and target are both \<open>c\<close>.
\<close>

theorem C3_self_edges_are_kept:
  assumes "th \<le> int (length (nodes dat))"
    and "clusteredData True th nt ex dat = Inr r"
    and "e \<in> set (edges dat)"
  shows "(t \<in> nt \<and> clusterKey t \<notin> ex
          \<and> th < int (length (filter (\<lambda>n. node_type n = t) (nodes dat)))
          \<and> distinct (map node_id (nodes dat))
          \<and> clusterKey t \<notin> node_id ` set (nodes dat)
          \<and> edge_source e \<in> node_id ` set (filter (\<lambda>n. node_type n = t) (nodes dat))
          \<and> edge_target e \<in> node_id ` set (filter (\<lambda>n. node_type n = t) (nodes dat))
          \<longrightarrow> edge_source (updateEdge (filter isClusterNode (c_nodes r)) e) = clusterKey t
              \<and> edge_target (updateEdge (filter isClusterNode (c_nodes r)) e) = clusterKey t)
       \<and> (edge_source (updateEdge (filter isClusterNode (c_nodes r)) e) = c
          \<and> edge_target (updateEdge (filter isClusterNode (c_nodes r)) e) = c
          \<longrightarrow> (\<exists>e' \<in> set (c_edges r). edgeKey e' = c @ ''-'' @ c)
              \<and> (CHR ''-'' \<notin> set c \<longrightarrow>
                   (\<exists>e' \<in> set (c_edges r). edge_source e' = c \<and> edge_target e' = c)))"
proof (intro conjI impI)
  assume m: "t \<in> nt \<and> clusterKey t \<notin> ex
          \<and> th < int (length (filter (\<lambda>n. node_type n = t) (nodes dat)))
          \<and> distinct (map node_id (nodes dat))
          \<and> clusterKey t \<notin> node_id ` set (nodes dat)
          \<and> edge_source e \<in> node_id ` set (filter (\<lambda>n. node_type n = t) (nodes dat))
          \<and> edge_target e \<in> node_id ` set (filter (\<lambda>n. node_type n = t) (nodes dat))"
  note rw = members_rewritten_to_cluster [OF assms(1,2), of t]
  show "edge_source (updateEdge (filter isClusterNode (c_nodes r)) e) = clusterKey t"
    unfolding updateEdge_endpoints using m by (intro rw) simp_all
  show "edge_target (updateEdge (filter isClusterNode (c_nodes r)) e) = clusterKey t"
    unfolding updateEdge_endpoints using m by (intro rw) simp_all
next
  assume s: "edge_source (updateEdge (filter isClusterNode (c_nodes r)) e) = c
          \<and> edge_target (updateEdge (filter isClusterNode (c_nodes r)) e) = c"
  define u where "u = updateEdge (filter isClusterNode (c_nodes r)) e"
  have key: "edgeKey u = c @ ''-'' @ c"
    using s by (simp add: edgeKey_def u_def)
  have "u \<in> set (map (updateEdge (filter isClusterNode (c_nodes r))) (edges dat))"
    using assms(3) by (simp add: u_def)
  then have "edgeKey u \<in> edgeKey ` set (c_edges r)"
    unfolding clusterNodes_of_result(2) [OF assms(1,2)] uniqueEdges_key_set by (rule imageI)
  then obtain e' where e': "e' \<in> set (c_edges r)" and k: "edgeKey e' = c @ ''-'' @ c"
    using key by auto
  then show "\<exists>e' \<in> set (c_edges r). edgeKey e' = c @ ''-'' @ c" by blast
  show "\<exists>e' \<in> set (c_edges r). edge_source e' = c \<and> edge_target e' = c"
    if "CHR ''-'' \<notin> set c"
    using edgeKey_self_loop [OF that k] e' by blast
qed

text \<open>
  Eleven exercise nodes collapse into one cluster node; the edge between two of them is
  rewritten to an edge from the cluster node to itself and is part of the output.
\<close>

theorem C3_self_edge_counterexample:
  "clusteredData True 10 (nodeTypes defaultSettings) {} linkedExercises =
     Inr \<lparr>c_nodes = [clusterRecord ''cluster_exercise'' ''exercise'' (nodes linkedExercises)],
          c_edges = [edgeEx12\<lparr>edge_source := ''cluster_exercise'',
                              edge_target := ''cluster_exercise''\<rparr>]\<rparr>"
  by code_simp

text \<open>The same graph, through the theorem: the edge between two members is kept.\<close>

theorem C3_self_edge_witness:
  "(10::int) \<le> int (length (nodes linkedExercises))
   \<and> edgeEx12 \<in> set (edges linkedExercises)
   \<and> ''exercise'' \<in> nodeTypes defaultSettings
   \<and> length (filter (\<lambda>n. node_type n = ''exercise'') (nodes linkedExercises)) = 11
   \<and> distinct (map node_id (nodes linkedExercises))
   \<and> clusteredData True 10 (nodeTypes defaultSettings) {} linkedExercises =
       Inr \<lparr>c_nodes = [clusterRecord ''cluster_exercise'' ''exercise'' (nodes linkedExercises)],
            c_edges = [edgeEx12\<lparr>edge_source := ''cluster_exercise'',
                                edge_target := ''cluster_exercise''\<rparr>]\<rparr>
   \<and> CHR ''-'' \<notin> set ''cluster_exercise''
   \<and> (\<exists>e' \<in> set [edgeEx12\<lparr>edge_source := ''cluster_exercise'',
                              edge_target := ''cluster_exercise''\<rparr>].
          edge_source e' = ''cluster_exercise'' \<and> edge_target e' = ''cluster_exercise'')"
proof -
  define r where "r = \<lparr>c_nodes = [clusterRecord ''cluster_exercise'' ''exercise'' (nodes linkedExercises)],
            c_edges = [edgeEx12\<lparr>edge_source := ''cluster_exercise'',
                                edge_target := ''cluster_exercise''\<rparr>]\<rparr>"
  have h1: "(10::int) \<le> int (length (nodes linkedExercises))" by code_simp
  have h2: "clusteredData True 10 (nodeTypes defaultSettings) {} linkedExercises = Inr r"
    unfolding r_def by code_simp
  have h3: "edgeEx12 \<in> set (edges linkedExercises)" by code_simp
  have k: "clusterKey ''exercise'' = ''cluster_exercise''" by code_simp
  have m1: "''exercise'' \<in> nodeTypes defaultSettings" by code_simp
  have m2: "clusterKey ''exercise'' \<notin> {}" by simp
  have G: "filter (\<lambda>n. node_type n = ''exercise'') (nodes linkedExercises) = nodes linkedExercises"
    by code_simp
  have len: "length (nodes linkedExercises) = 11" by code_simp
  have m3: "(10::int) < int (length (filter (\<lambda>n. node_type n = ''exercise'') (nodes linkedExercises)))"
    by (simp add: G len)
  have m4: "distinct (map node_id (nodes linkedExercises))" by code_simp
  have ids: "map node_id (nodes linkedExercises) =
    [''ex1'', ''ex2'', ''ex3'', ''ex4'', ''ex5'', ''ex6'', ''ex7'', ''ex8'', ''ex9'', ''ex10'', ''ex11'']"
    by code_simp
  have m5: "clusterKey ''exercise'' \<notin> node_id ` set (nodes linkedExercises)"
    unfolding k set_map [symmetric] ids by simp
  have m6: "edge_source edgeEx12 \<in> node_id ` set (filter (\<lambda>n. node_type n = ''exercise'') (nodes linkedExercises))"
    unfolding G set_map [symmetric] ids by (simp add: edgeEx12_def)
  have m7: "edge_target edgeEx12 \<in> node_id ` set (filter (\<lambda>n. node_type n = ''exercise'') (nodes linkedExercises))"
    unfolding G set_map [symmetric] ids by (simp add: edgeEx12_def)
  note inst = C3_self_edges_are_kept [OF h1 h2 h3, of "''exercise''" "''cluster_exercise''"]
  have rw: "edge_source (updateEdge (filter isClusterNode (c_nodes r)) edgeEx12) = ''cluster_exercise''
          \<and> edge_target (updateEdge (filter isClusterNode (c_nodes r)) edgeEx12) = ''cluster_exercise''"
    using inst [THEN conjunct1, THEN mp] m1 m2 m3 m4 m5 m6 m7 unfolding k by blast
  have h6: "CHR ''-'' \<notin> set ''cluster_exercise''" by simp
  have "\<exists>e' \<in> set (c_edges r).
          edge_source e' = ''cluster_exercise'' \<and> edge_target e' = ''cluster_exercise''"
    using inst [THEN conjunct2, THEN mp, OF rw, THEN conjunct2, THEN mp, OF h6] .
  then have c: "\<exists>e' \<in> set [edgeEx12\<lparr>edge_source := ''cluster_exercise'',
                              edge_target := ''cluster_exercise''\<rparr>].
          edge_source e' = ''cluster_exercise'' \<and> edge_target e' = ''cluster_exercise''"
    by (simp add: r_def)
  have l11: "length (filter (\<lambda>n. node_type n = ''exercise'') (nodes linkedExercises)) = 11"
    by (simp add: G len)
  show ?thesis using h1 h2 h3 m1 l11 m4 h6 c unfolding r_def by blast
qed




section \<open>Visibility filter\<close>

lemma validLinks_no_dangling:
  "e \<in> set (validLinks dat) \<Longrightarrow>
   edge_source e \<in> node_id ` set (nodes dat) \<and> edge_target e \<in> node_id ` set (nodes dat)"
  by (simp add: validLinks_def)

lemma searchFilter_no_dangling:
  "q \<noteq> [] \<Longrightarrow> e \<in> set (c_edges (searchFilter q v)) \<Longrightarrow>
   edge_source e \<in> d_id ` set (c_nodes (searchFilter q v))
   \<and> edge_target e \<in> d_id ` set (c_nodes (searchFilter q v))"
  by (auto simp: searchFilter_def Let_def)








section \<open>Level of detail\<close>

text \<open>
  At a zoom of exactly 0.7 the test \<open>zoomLevel > 0.7\<close> fails, and the node is drawn as
  the small dot without a label.
\<close>

theorem C4_boundary_counterexample:
  "detailTier (7 / 10) = Simplified
   \<and> renderNode (7 / 10) (toD3 nodeA) = [Circle 4 ''#ff6b6b'']"
  by code_simp

text \<open>
  Claim C4, as the code has it. The detail tier depends on the zoom factor alone. Above
  0.7 an entering node gets the full detail: a circle sized and coloured by its type and
  a label. At 0.7 and below it gets the reduced detail: a dot of radius 4 (8 for a
  cluster node) and no label. Two passes at the same zoom draw the same.
\<close>

theorem C4_detail_tier_by_zoom:
  "(zoom > 7 / 10 \<longrightarrow>
      detailTier zoom = FullDetail
      \<and> renderNode zoom d = [Circle (fullRadius d) (fillOf d), Label (labelText d)])
   \<and> (zoom \<le> 7 / 10 \<longrightarrow>
      detailTier zoom = Simplified
      \<and> renderNode zoom d = [Circle (if isClusterNode d then 8 else 4) (fillOf d)])
   \<and> (zoom = zoom' \<longrightarrow> detailTier zoom = detailTier zoom' \<and> renderNode zoom d = renderNode zoom' d)"
  by (simp add: detailTier_def renderNode_def)

text \<open>The condition node \<open>A\<close> at zoom 1 and at zoom 0.5.\<close>

theorem C4_detail_tier_witness:
  "(1::rat) > 7 / 10
   \<and> renderNode 1 (toD3 nodeA) = [Circle 25 ''#ff6b6b'', Label ''A'']
   \<and> (1 / 2 :: rat) \<le> 7 / 10
   \<and> renderNode (1 / 2) (toD3 nodeA) = [Circle 4 ''#ff6b6b'']"
proof -
  have h1: "(1::rat) > 7 / 10" by simp
  have h2: "(1 / 2 :: rat) \<le> 7 / 10" by simp
  have e1: "fullRadius (toD3 nodeA) = 25" "fillOf (toD3 nodeA) = ''#ff6b6b''"
    "labelText (toD3 nodeA) = ''A''" "isClusterNode (toD3 nodeA) = False"
    by code_simp+
  have "renderNode 1 (toD3 nodeA) = [Circle 25 ''#ff6b6b'', Label ''A'']"
    using C4_detail_tier_by_zoom [of 1 "toD3 nodeA", THEN conjunct1, THEN mp, OF h1]
    by (simp add: e1)
  moreover have "renderNode (1 / 2) (toD3 nodeA) = [Circle 4 ''#ff6b6b'']"
    using C4_detail_tier_by_zoom [of "1 / 2" "toD3 nodeA", THEN conjunct2, THEN conjunct1, THEN mp, OF h2]
    by (simp add: e1)
  ultimately show ?thesis using h1 h2 by blast
qed

section \<open>Determinism of the reducer\<close>

text \<open>
  Claim C7. The reducer's result is determined by the node and edge collection, the
  active node types, the threshold, the enabling flag and the expanded clusters: two
  runs that agree on these return the same cluster nodes with the same \<open>childNodes\<close>,
  the same individual nodes and the same edges, whatever the rest of the state is. The
  reducer returns a result on every input.
\<close>

theorem C7_reducer_deterministic:
  "(enableClustering st1 = enableClustering st2 \<and> clusterThreshold st1 = clusterThreshold st2
     \<and> nodeTypes st1 = nodeTypes st2 \<and> expandedClusters st1 = expandedClusters st2 \<longrightarrow>
       clusterStage st1 dat = clusterStage st2 dat)
   \<and> (\<exists>r. clusterStage st1 dat = Inr r)"
  using clusteredData_total by (simp add: clusterStage_def)

text \<open>
  Two runs on fifteen exercise nodes, the second at another zoom and with a search
  query: the same single cluster node.
\<close>

theorem C7_reducer_witness:
  "clusterStage defaultSettings (exercises 15) =
     clusterStage (defaultSettings\<lparr>zoomLevel := 1 / 4, searchQuery := ''knee''\<rparr>) (exercises 15)
   \<and> clusterStage defaultSettings (exercises 15) =
       Inr \<lparr>c_nodes = [clusterRecord ''cluster_exercise'' ''exercise'' (nodes (exercises 15))],
            c_edges = []\<rparr>"
proof -
  have "clusterStage defaultSettings (exercises 15) =
     clusterStage (defaultSettings\<lparr>zoomLevel := 1 / 4, searchQuery := ''knee''\<rparr>) (exercises 15)"
    using C7_reducer_deterministic [of defaultSettings
        "defaultSettings\<lparr>zoomLevel := 1 / 4, searchQuery := ''knee''\<rparr>" "exercises 15",
        THEN conjunct1]
    by simp
  moreover have "clusterStage defaultSettings (exercises 15) =
       Inr \<lparr>c_nodes = [clusterRecord ''cluster_exercise'' ''exercise'' (nodes (exercises 15))],
            c_edges = []\<rparr>"
    by code_simp
  ultimately show ?thesis by blast
qed

section \<open>Edges after the type filter\<close>

text \<open>
  Claim C1, on the code. With no search query and the importance cap not engaged, the
  edges the filter returns are the input edges of an active edge type, whatever has
  become of their endpoints, while the nodes returned are among those of an active node
  type and the cluster nodes. An edge of an active type to a node of an inactive type
  therefore stays without its target. The type filter prunes no edge by its endpoints;
  the search filter, the importance cap and the link filter of \<open>D3ForceGraph\<close> do.
\<close>

theorem C1_edges_kept_whatever_their_endpoints:
  assumes "q = []"
    and "\<not> (mode = ModeImportant
            \<and> int (length (filter (\<lambda>n. d_type n \<in> nt \<or> isClusterNode n) (c_nodes v))) > maxN)"
  shows "c_edges (visibleData v q nt et mode maxN imp zoom) =
           filter (\<lambda>e. edge_type e \<in> et) (c_edges v)
       \<and> set (c_nodes (visibleData v q nt et mode maxN imp zoom))
           \<subseteq> {n \<in> set (c_nodes v). d_type n \<in> nt \<or> isClusterNode n}"
  using assms
  by (auto simp: visibleData_def searchFilter_def typeFilter_def importanceFilter_def
        lodFilter_def)

text \<open>
  On the three-node graph with the equipment type removed from the active node types,
  the nodes \<open>A\<close> and \<open>B\<close> and both edges are returned: the edge from \<open>B\<close> to \<open>C\<close> stays
  although \<open>C\<close> is gone.
\<close>

theorem C1_dangling_edge_witness:
  "searchQuery (defaultSettings\<lparr>nodeTypes := set [''condition'', ''exercise'', ''metric'']\<rparr>) = []
   \<and> c_edges (visibleData scenarioClustered [] (set [''condition'', ''exercise'', ''metric''])
         (edgeTypes defaultSettings) ModeImportant 100 (nodeImportance scenarioGraph) 1) =
       [edgeAB, edgeBC]
   \<and> simulated (defaultSettings\<lparr>nodeTypes := set [''condition'', ''exercise'', ''metric'']\<rparr>)
       scenarioGraph =
       Inr \<lparr>c_nodes = [toD3 nodeA, toD3 nodeB], c_edges = [edgeAB, edgeBC]\<rparr>
   \<and> edge_target edgeBC = ''C''
   \<and> map d_id [toD3 nodeA, toD3 nodeB] = [''A'', ''B'']"
proof -
  have h1: "searchQuery (defaultSettings\<lparr>nodeTypes := set [''condition'', ''exercise'', ''metric'']\<rparr>) = []"
    by code_simp
  have h2: "\<not> (ModeImportant = ModeImportant
            \<and> int (length (filter (\<lambda>n. d_type n \<in> set [''condition'', ''exercise'', ''metric'']
                                        \<or> isClusterNode n) (c_nodes scenarioClustered))) > 100)"
    by code_simp
  have e: "filter (\<lambda>e. edge_type e \<in> edgeTypes defaultSettings) (c_edges scenarioClustered) =
             [edgeAB, edgeBC]"
    by code_simp
  have c1: "c_edges (visibleData scenarioClustered [] (set [''condition'', ''exercise'', ''metric''])
         (edgeTypes defaultSettings) ModeImportant 100 (nodeImportance scenarioGraph) 1) =
       [edgeAB, edgeBC]"
    using C1_edges_kept_whatever_their_endpoints [OF refl h2, THEN conjunct1] e by simp
  have c2: "simulated (defaultSettings\<lparr>nodeTypes := set [''condition'', ''exercise'', ''metric'']\<rparr>)
       scenarioGraph =
       Inr \<lparr>c_nodes = [toD3 nodeA, toD3 nodeB], c_edges = [edgeAB, edgeBC]\<rparr>"
    by code_simp
  have c3: "edge_target edgeBC = ''C''" by code_simp
  have c4: "map d_id [toD3 nodeA, toD3 nodeB] = [''A'', ''B'']" by code_simp
  from h1 c1 c2 c3 c4 show ?thesis by blast
qed

section \<open>Selection\<close>

text \<open>
  Claim C9. A call of \<open>selectNode\<close> without the multi flag empties both selection sets
  before adding the id: afterwards exactly that node id is selected and no edge id is.
  \<open>selectEdge\<close> without the multi flag is symmetric: exactly that edge id is selected
  and no node id is. This holds whatever was selected before, of either kind.
\<close>

theorem C9_single_select_replaces_both:
  "selectedNodeIds (selectNode nodeId False s) = {nodeId}
   \<and> selectedEdgeIds (selectNode nodeId False s) = {}
   \<and> selectedEdgeIds (selectEdge edgeId False s) = {edgeId}
   \<and> selectedNodeIds (selectEdge edgeId False s) = {}"
  by (simp add: selectNode_def selectEdge_def)

end
